theory Spec2Isabelle
  imports Main
begin

section \<open>Algorithm negotiation profile (controllers/ssh\_controllers.py)\<close>

text \<open>
  Python's \<^verbatim>\<open>bytes.split(sep)\<close> for a one-byte separator: every occurrence of the
  separator ends a field, so the empty input gives one empty field.
\<close>

fun bytes_split :: "char \<Rightarrow> string \<Rightarrow> string list" where
  "bytes_split sep [] = [[]]"
| "bytes_split sep (c # cs) =
     (if c = sep then [] # bytes_split sep cs
      else (case bytes_split sep cs of
              [] \<Rightarrow> [[c]]
            | w # ws \<Rightarrow> (c # w) # ws))"

text \<open>
  Python's \<^verbatim>\<open>bytes.replace(old, new)\<close>: the occurrences of \<open>old\<close> are replaced from
  left to right without overlap; an empty \<open>old\<close> matches before every byte and at the end.
\<close>

function bytes_replace :: "string \<Rightarrow> string \<Rightarrow> string \<Rightarrow> string" where
  "bytes_replace old new [] = (if old = [] then new else [])"
| "bytes_replace old new (c # cs) =
     (if old = [] then new @ c # bytes_replace old new cs
      else if take (length old) (c # cs) = old
           then new @ bytes_replace old new (drop (length old) (c # cs))
           else c # bytes_replace old new cs)"
  by pat_completeness auto
termination
  by (relation "measure (\<lambda>(old, new, s). length s)") auto

text \<open>
  The lists that the library offers (\<^verbatim>\<open>asyncssh.kex.get_kex_algs()\<close> and its siblings)
  are not part of the repository: they are parameters of the profile.
\<close>

record asyncssh_algs =
  get_kex_algs :: "string list"
  get_encryption_algs :: "string list"
  get_mac_algs :: "string list"
  get_compression_algs :: "string list"
  get_x509_certificate_algs :: "string list"
  get_public_key_algs :: "string list"

record algs_config =
  server_host_key_algs :: "string list"
  kex_algs :: "string list"
  encryption_algs :: "string list"
  mac_algs :: "string list"
  compression_algs :: "string list"
  signature_algs :: "string list"

definition jsch_kex_algs :: string where
  "jsch_kex_algs =
     ''ecdh-sha2-nistp256,ecdh-sha2-nistp384,ecdh-sha2-nistp521,diffie-hellman-group14-sha1,'' @
     ''diffie-hellman-group-exchange-sha256,diffie-hellman-group-exchange-sha1,'' @
     ''diffie-hellman-group1-sha1''"

definition jsch_server_host_key_algs :: string where
  "jsch_server_host_key_algs =
     ''ssh-rsa,ssh-dss,ecdsa-sha2-nistp256,ecdsa-sha2-nistp384,'' @
     ''ecdsa-sha2-nistp521''"

definition jsch_encryption_algs :: string where
  "jsch_encryption_algs =
     ''aes128-ctr,aes128-cbc,3des-ctr,3des-cbc,blowfish-cbc,aes192-ctr,'' @
     ''aes192-cbc,aes256-ctr,aes256-cbc''"

definition jsch_mac_algs :: string where
  "jsch_mac_algs = ''hmac-md5,hmac-sha1,hmac-sha2-256,hmac-sha1-96,hmac-md5-96''"

text \<open>The last loop of \<^verbatim>\<open>get_algs_config\<close>: empty names are dropped from every list.\<close>

definition decode_nonempty :: "string list \<Rightarrow> string list" where
  "decode_nonempty algs = filter (\<lambda>alg. alg \<noteq> []) algs"

text \<open>
  \<^verbatim>\<open>get_algs_config\<close>, statement by statement. The function is memoized with
  \<^verbatim>\<open>@cache\<close>; as it has no argument and reads nothing but the library's lists, every
  call returns the value computed here.
\<close>

definition get_algs_config :: "asyncssh_algs \<Rightarrow> algs_config" where
  "get_algs_config lib =
     (let c0 = \<lparr>server_host_key_algs = [''ssh-rsa''],
                kex_algs = get_kex_algs lib,
                encryption_algs = get_encryption_algs lib,
                mac_algs = get_mac_algs lib,
                compression_algs = get_compression_algs lib,
                signature_algs = get_x509_certificate_algs lib @ get_public_key_algs lib\<rparr>;
          c1 = (if ''ecdh-sha2-nistp521'' \<in> set (kex_algs c0)
                then c0\<lparr>kex_algs := remove1 ''ecdh-sha2-nistp521'' (kex_algs c0)\<rparr>
                else c0);
          c2 = c1\<lparr>kex_algs := rev (kex_algs c1)\<rparr>;
          c3 = c2\<lparr>kex_algs := bytes_split CHR '','' jsch_kex_algs\<rparr>;
          c4 = c3\<lparr>server_host_key_algs := bytes_split CHR '','' jsch_server_host_key_algs\<rparr>;
          c5 = c4\<lparr>encryption_algs :=
                     bytes_split CHR '','' (bytes_replace ''3des-ctr'' '''' jsch_encryption_algs)\<rparr>;
          c6 = c5\<lparr>mac_algs := bytes_split CHR '','' jsch_mac_algs\<rparr>;
          c7 = c6\<lparr>compression_algs := bytes_split CHR '','' ''none''\<rparr>
      in \<lparr>server_host_key_algs = decode_nonempty (server_host_key_algs c7),
          kex_algs = decode_nonempty (kex_algs c7),
          encryption_algs = decode_nonempty (encryption_algs c7),
          mac_algs = decode_nonempty (mac_algs c7),
          compression_algs = decode_nonempty (compression_algs c7),
          signature_algs = decode_nonempty (signature_algs c7)\<rparr>)"

section \<open>Preliminaries\<close>

subsection \<open>Decimal text of an integer\<close>

fun str_nat :: "nat \<Rightarrow> string" where
  "str_nat n =
     (if n < 10 then [char_of (48 + n)]
      else str_nat (n div 10) @ [char_of (48 + n mod 10)])"

declare str_nat.simps [simp del]

definition str_int :: "int \<Rightarrow> string" where
  "str_int i = (if i < 0 then CHR ''-'' # str_nat (nat (- i)) else str_nat (nat i))"

section \<open>Entities (models/models.py)\<close>

text \<open>
  The classes of the object-relational mapping are records. A moment in time is a
  number; \<^verbatim>\<open>datetime.now()\<close> is an argument \<open>now\<close> of the operations that read the
  clock. An entity is referred to by its primary key, a number.
\<close>

type_synonym datetime = nat

record Model =
  last_checked :: "datetime option"
  last_modified :: datetime

text \<open>
  \<^verbatim>\<open>SSH\<close>: \<open>is_live\<close> is an optional boolean (unknown, live, dead); \<open>port\<close> is the
  port that holds the login now, the reverse side of \<^verbatim>\<open>Port.ssh\<close>. The set
  \<^verbatim>\<open>used_ports\<close> is the reverse side of \<^verbatim>\<open>Port.used_ssh_list\<close>: the two attributes are
  two views of one relation, which the model keeps with the ports.
\<close>

record SSH = Model +
  ip :: string
  username :: string
  password :: string
  ssh_port :: int
  is_live :: "bool option"
  port :: "nat option"

record Port = Model +
  port_number :: int
  auto_connect :: bool
  ssh :: "nat option"
  is_connected :: bool
  public_ip :: string
  time_connected :: "datetime option"
  is_working :: bool
  used_ssh_list :: "nat set"
  proxy_address :: string

subsection \<open>Methods of \<^verbatim>\<open>Model\<close>\<close>

definition Model_before_update :: "datetime \<Rightarrow> 'a Model_scheme \<Rightarrow> 'a Model_scheme" where
  "Model_before_update now self = self\<lparr>last_modified := now\<rparr>"

definition Model_reset_status :: "'a Model_scheme \<Rightarrow> 'a Model_scheme" where
  "Model_reset_status self = self\<lparr>last_checked := None\<rparr>"

subsection \<open>Methods of \<^verbatim>\<open>Port\<close>\<close>

text \<open>
  \<^verbatim>\<open>Port.before_update\<close>, the hook that runs before a changed port is written. The
  address of the machine (\<^verbatim>\<open>utils.get_ipv4_address()\<close>) is the argument \<open>ipv4\<close>. A
  \<^verbatim>\<open>datetime\<close> is never falsy, so \<^verbatim>\<open>self.time_connected or datetime.now()\<close> keeps a
  time that is set.
\<close>

definition Port_before_update :: "datetime \<Rightarrow> string \<Rightarrow> Port \<Rightarrow> Port" where
  "Port_before_update now ipv4 self =
     (let s1 = Model_before_update now self;
          s2 = (if is_connected s1
                then s1\<lparr>time_connected :=
                          (case time_connected s1 of None \<Rightarrow> Some now | Some t \<Rightarrow> Some t)\<rparr>
                else s1\<lparr>time_connected := None\<rparr>);
          s3 = (if is_connected s2
                then (case ssh s2 of
                        None \<Rightarrow> s2
                      | Some x \<Rightarrow>
                          if x \<notin> used_ssh_list s2
                          then s2\<lparr>used_ssh_list := insert x (used_ssh_list s2)\<rparr>
                          else s2)
                else s2)
      in s3\<lparr>proxy_address := ''socks5://'' @ ipv4 @ '':'' @ str_int (port_number s3)\<rparr>)"

definition need_reset :: "Port \<Rightarrow> datetime \<Rightarrow> bool" where
  "need_reset self time_expired =
     (case time_connected self of None \<Rightarrow> False | Some t \<Rightarrow> t < time_expired)"

definition need_ssh :: "Port \<Rightarrow> bool" where
  "need_ssh self = (ssh self = None)"

definition assign_ssh :: "Port \<Rightarrow> nat option \<Rightarrow> Port" where
  "assign_ssh self x = self\<lparr>ssh := x, is_connected := False, last_checked := None\<rparr>"

text \<open>
  \<^verbatim>\<open>Port.disconnect_ssh\<close>: with \<^verbatim>\<open>remove_from_used\<close> the login assigned now is taken out
  of \<^verbatim>\<open>used_ssh_list\<close> (removing from a set of the mapping does nothing when the
  element is not there); then \<^verbatim>\<open>assign_ssh(None)\<close>.
\<close>

definition disconnect_ssh :: "Port \<Rightarrow> bool \<Rightarrow> Port" where
  "disconnect_ssh self remove_from_used =
     assign_ssh
       (case ssh self of
          None \<Rightarrow> self
        | Some x \<Rightarrow>
            if remove_from_used then self\<lparr>used_ssh_list := used_ssh_list self - {x}\<rparr>
            else self)
       None"

definition reset_status :: "Port \<Rightarrow> Port" where
  "reset_status self =
     (Model_reset_status self)
       \<lparr>public_ip := [], ssh := None, is_connected := False, used_ssh_list := {},
        is_working := False\<rparr>"

text \<open>The spec's invariant of the two flags of a port.\<close>

definition no_partial_connection :: "Port \<Rightarrow> bool" where
  "no_partial_connection self \<longleftrightarrow> (is_working self \<longrightarrow> is_connected self)"

subsection \<open>The store\<close>

text \<open>
  The rows of the two tables by primary key, and the primary keys of the rows of
  the \<^verbatim>\<open>SSH\<close> table. The methods above change the row of one port; at the level of the
  store an assignment to \<^verbatim>\<open>Port.ssh\<close> also changes the reverse attribute \<^verbatim>\<open>SSH.port\<close>,
  as the mapping does for a one-to-one relation: the login given up loses its port,
  the login taken gets this port, and a port that held the login taken loses it.
\<close>

record store =
  ssh_ids :: "nat list"
  ssh_tbl :: "nat \<Rightarrow> SSH"
  port_tbl :: "nat \<Rightarrow> Port"

definition unlink_ssh :: "store \<Rightarrow> nat option \<Rightarrow> store" where
  "unlink_ssh st x =
     (case x of
        None \<Rightarrow> st
      | Some old \<Rightarrow> st\<lparr>ssh_tbl := (ssh_tbl st)(old := (ssh_tbl st old)\<lparr>port := None\<rparr>)\<rparr>)"

definition link_ssh :: "store \<Rightarrow> nat \<Rightarrow> nat option \<Rightarrow> store" where
  "link_ssh st pid x =
     (case x of
        None \<Rightarrow> st
      | Some new \<Rightarrow>
          (let st1 = (case port (ssh_tbl st new) of
                        None \<Rightarrow> st
                      | Some q \<Rightarrow>
                          if q = pid then st
                          else st\<lparr>port_tbl := (port_tbl st)(q := (port_tbl st q)\<lparr>ssh := None\<rparr>)\<rparr>)
           in st1\<lparr>ssh_tbl := (ssh_tbl st1)(new := (ssh_tbl st1 new)\<lparr>port := Some pid\<rparr>)\<rparr>))"

text \<open>The method \<open>f\<close> applied to the port \<open>pid\<close>, which ends with \<open>ssh\<close> set to \<open>x\<close>.\<close>

definition on_port :: "store \<Rightarrow> nat \<Rightarrow> (Port \<Rightarrow> Port) \<Rightarrow> store" where
  "on_port st pid f =
     (let x = ssh (f (port_tbl st pid));
          st1 = link_ssh (unlink_ssh st (ssh (port_tbl st pid))) pid x
      in st1\<lparr>port_tbl := (port_tbl st1)(pid := f (port_tbl st1 pid))\<rparr>)"

definition store_assign_ssh :: "store \<Rightarrow> nat \<Rightarrow> nat option \<Rightarrow> store" where
  "store_assign_ssh st pid x = on_port st pid (\<lambda>self. assign_ssh self x)"

definition store_disconnect_ssh :: "store \<Rightarrow> nat \<Rightarrow> bool \<Rightarrow> store" where
  "store_disconnect_ssh st pid remove_from_used =
     on_port st pid (\<lambda>self. disconnect_ssh self remove_from_used)"

definition store_reset_status :: "store \<Rightarrow> nat \<Rightarrow> store" where
  "store_reset_status st pid = on_port st pid reset_status"

subsection \<open>Methods of \<^verbatim>\<open>SSH\<close>\<close>

text \<open>
  \<^verbatim>\<open>SSH.before_update\<close>, the hook that runs before a changed login is written:
  \<^verbatim>\<open>self.port not in self.used_ports\<close> reads, and \<^verbatim>\<open>self.used_ports.add(self.port)\<close>
  writes, the relation that the port sees as \<^verbatim>\<open>used_ssh_list\<close>.
\<close>

definition SSH_before_update :: "datetime \<Rightarrow> store \<Rightarrow> nat \<Rightarrow> store" where
  "SSH_before_update now st sid =
     (let st1 = st\<lparr>ssh_tbl := (ssh_tbl st)(sid := Model_before_update now (ssh_tbl st sid))\<rparr>
      in case port (ssh_tbl st1 sid) of
           None \<Rightarrow> st1
         | Some p \<Rightarrow>
             if sid \<notin> used_ssh_list (port_tbl st1 p)
             then st1\<lparr>port_tbl := (port_tbl st1)
                        (p := (port_tbl st1 p)
                                \<lparr>used_ssh_list := insert sid (used_ssh_list (port_tbl st1 p))\<rparr>)\<rparr>
             else st1)"

text \<open>
  \<^verbatim>\<open>query.random(1)\<close> gives the empty list for a query without rows and one row,
  drawn at random, otherwise. The draw is the argument \<open>r\<close>: the row taken is the one
  at position \<open>r mod n\<close> of the \<open>n\<close> rows.
\<close>

definition random_1 :: "nat \<Rightarrow> 'a list \<Rightarrow> 'a list" where
  "random_1 r rows = (if rows = [] then [] else [rows ! (r mod length rows)])"

text \<open>
  \<^verbatim>\<open>SSH.get_ssh_for_port\<close>: the rows with \<open>is_live\<close> true, without those whose key is in
  the port's \<^verbatim>\<open>used_ssh_list\<close> when \<open>unique\<close> is set; one of them at random, or \<^verbatim>\<open>None\<close>.
\<close>

definition get_ssh_for_port :: "nat \<Rightarrow> store \<Rightarrow> nat \<Rightarrow> bool \<Rightarrow> nat option" where
  "get_ssh_for_port r st pid unique =
     (let query = filter (\<lambda>s. is_live (ssh_tbl st s) = Some True) (ssh_ids st);
          query' = (if unique
                    then filter (\<lambda>s. s \<notin> used_ssh_list (port_tbl st pid)) query
                    else query);
          result = random_1 r query'
      in if result \<noteq> [] then Some (result ! 0) else None)"

subsection \<open>Example entities\<close>

text \<open>A port that is connected and working, with two logins in its history.\<close>

definition working_port :: Port where
  "working_port =
     \<lparr>last_checked = Some 5, last_modified = 5, port_number = 20000, auto_connect = True,
      ssh = Some 1, is_connected = True, public_ip = ''203.0.113.7'',
      time_connected = Some 5, is_working = True, used_ssh_list = {1, 2},
      proxy_address = ''socks5://192.0.2.1:20000''\<rparr>"

definition fresh_port :: Port where
  "fresh_port =
     \<lparr>last_checked = None, last_modified = 0, port_number = 20000, auto_connect = True,
      ssh = None, is_connected = False, public_ip = [],
      time_connected = None, is_working = False, used_ssh_list = {},
      proxy_address = []\<rparr>"

definition example_ssh :: "bool option \<Rightarrow> SSH" where
  "example_ssh live =
     \<lparr>last_checked = None, last_modified = 0, ip = ''10.0.0.5'', username = ''admin'',
      password = ''secret'', ssh_port = 22, is_live = live, port = None\<rparr>"

text \<open>Three logins, the second one dead, and ports that were never used.\<close>

definition example_store :: store where
  "example_store =
     \<lparr>ssh_ids = [1, 2, 3],
      ssh_tbl = (\<lambda>s. example_ssh (if s = 2 then Some False else Some True)),
      port_tbl = (\<lambda>p. fresh_port)\<rparr>"

section \<open>Tunnel session manager (controllers/ssh\_controllers.py)\<close>

subsection \<open>Exceptions\<close>

text \<open>
  An exception is classified by the \<^verbatim>\<open>except\<close> clause of \<^verbatim>\<open>connect_ssh\<close> that catches
  it: \<open>OSError\<close> is the class of the first clause (\<^verbatim>\<open>ConnectionRefusedError\<close>, an
  unreachable network, the operating system's \<^verbatim>\<open>TimeoutError\<close> are subclasses of it),
  \<open>AsyncsshError\<close> and \<open>AsyncioTimeoutError\<close> are the two classes of the second clause
  (the latter stands for an \<^verbatim>\<open>asyncio.TimeoutError\<close> that is not an \<^verbatim>\<open>OSError\<close>), and
  \<open>SSHError\<close> is the module's own exception. \<open>OtherException\<close> is every exception that
  no clause catches (for instance the \<^verbatim>\<open>OverflowError\<close> of a port number outside
  0..65535): it leaves \<^verbatim>\<open>connect_ssh\<close> as it is. An exception carries the name of its
  type and its text, which \<^verbatim>\<open>connect_ssh\<close> copies into the message of the
  \<^verbatim>\<open>SSHError\<close> it raises.
\<close>

datatype exc_class = OSError | AsyncsshError | AsyncioTimeoutError | SSHError | OtherException

datatype exc = Exc (exc_class: exc_class) (exc_name: string) (exc_str: string)

definition raise_SSHError :: "string \<Rightarrow> exc" where
  "raise_SSHError msg = Exc SSHError ''SSHError'' msg"

text \<open>The message \<^verbatim>\<open>f"{type(exc).__name__}: {exc}."\<close>.\<close>

definition wrap_exc :: "exc \<Rightarrow> string" where
  "wrap_exc e = exc_name e @ '': '' @ exc_str e @ ''.''"

subsection \<open>Sessions and the registry\<close>

text \<open>
  A connection handle is the number of the \<^verbatim>\<open>asyncssh.connect\<close> call that made it, so
  two calls never give the same handle.
\<close>

record ProxyInfo =
  port :: int
  connection :: nat
  host :: string
  proxy_type :: string

definition address :: "ProxyInfo \<Rightarrow> string" where
  "address p = proxy_type p @ ''://'' @ host p @ '':'' @ str_int (port p)"

text \<open>
  The state that the module's functions read and write: the module-level list
  \<^verbatim>\<open>proxies\<close>, and what the outside world has seen of the calls made so far: the
  arguments of every \<^verbatim>\<open>asyncssh.connect\<close> call (host, username, password, ssh\_port),
  the connections handed to \<^verbatim>\<open>utils.kill_ssh_connection\<close>, and the number of calls of
  \<^verbatim>\<open>utils.get_free_port\<close>.
\<close>

record world =
  proxies :: "ProxyInfo list"
  connect_calls :: "(string \<times> string \<times> string \<times> int) list"
  closed :: "nat list"
  free_port_calls :: nat

definition init_world :: world where
  "init_world = \<lparr>proxies = [], connect_calls = [], closed = [], free_port_calls = 0\<rparr>"

text \<open>
  The collaborators (\<^verbatim>\<open>asyncssh\<close>, \<^verbatim>\<open>utils\<close>) are outside the module: what they
  answer is a parameter. Each answer may depend on the number of the call and on
  the call's arguments. \<open>None\<close> is a call that returns; \<open>Some e\<close> is a call that
  raises \<open>e\<close>. \<^verbatim>\<open>get_proxy_ip\<close> returns the address seen through the proxy, or the
  empty string.
\<close>

record env =
  get_free_port :: "nat \<Rightarrow> int"
  asyncssh_connect :: "nat \<Rightarrow> string \<Rightarrow> string \<Rightarrow> string \<Rightarrow> int \<Rightarrow> exc option"
  forward_socks :: "nat \<Rightarrow> int \<Rightarrow> exc option"
  get_proxy_ip :: "nat \<Rightarrow> string \<Rightarrow> string"

text \<open>
  Modelled from the spec: \<^verbatim>\<open>utils.kill_ssh_connection\<close> is not among the sources. The
  spec says of a teardown that it closes the underlying connection; the model
  records the connection as closed and changes nothing else.
\<close>

definition kill_ssh_connection :: "nat \<Rightarrow> world \<Rightarrow> world" where
  "kill_ssh_connection c s = s\<lparr>closed := closed s @ [c]\<rparr>"

text \<open>
  \<^verbatim>\<open>kill_proxy_on_port\<close>: the loop stops at the first session of the port, removes it
  from the list (\<^verbatim>\<open>list.remove\<close> takes out the first equal element) and closes its
  connection; the loop's \<^verbatim>\<open>else\<close> raises when no session was found.
\<close>

definition kill_proxy_on_port :: "int \<Rightarrow> world \<Rightarrow> (exc + unit) \<times> world" where
  "kill_proxy_on_port p s =
     (case find (\<lambda>proxy. port proxy = p) (proxies s) of
        Some proxy \<Rightarrow>
          (Inr (), kill_ssh_connection (connection proxy)
                     (s\<lparr>proxies := remove1 proxy (proxies s)\<rparr>))
      | None \<Rightarrow>
          (Inl (raise_SSHError (''No proxy on port '' @ str_int p @ '' found.'')), s))"

text \<open>\<^verbatim>\<open>if not port: port = utils.get_free_port()\<close>; \<^verbatim>\<open>None\<close> and \<open>0\<close> are the falsy ports.\<close>

definition resolve_port :: "env \<Rightarrow> int option \<Rightarrow> world \<Rightarrow> int \<times> world" where
  "resolve_port env p s =
     (case p of
        None \<Rightarrow> (get_free_port env (free_port_calls s),
                 s\<lparr>free_port_calls := Suc (free_port_calls s)\<rparr>)
      | Some q \<Rightarrow>
          (if q = 0
           then (get_free_port env (free_port_calls s),
                 s\<lparr>free_port_calls := Suc (free_port_calls s)\<rparr>)
           else (q, s)))"

text \<open>
  The body of the inner \<^verbatim>\<open>try\<close> of \<^verbatim>\<open>connect_ssh\<close>: one connection attempt. The call of
  \<^verbatim>\<open>asyncssh.connect\<close> is recorded first; then the forward is opened and the proxy's
  address is looked up through it. An empty answer closes the new connection and
  raises \<^verbatim>\<open>SSHError\<close>.
\<close>

definition connect_ssh_try ::
  "env \<Rightarrow> string \<Rightarrow> string \<Rightarrow> string \<Rightarrow> int \<Rightarrow> int \<Rightarrow> world \<Rightarrow> (exc + ProxyInfo) \<times> world" where
  "connect_ssh_try env h u pw p sp s =
     (let i = length (connect_calls s);
          s1 = s\<lparr>connect_calls := connect_calls s @ [(h, u, pw, sp)]\<rparr>
      in case asyncssh_connect env i h u pw sp of
           Some e \<Rightarrow> (Inl e, s1)
         | None \<Rightarrow>
             (case forward_socks env i p of
                Some e \<Rightarrow> (Inl e, s1)
              | None \<Rightarrow>
                  (let proxy_info = \<lparr>port = p, connection = i,
                                     host = ''localhost'', proxy_type = ''socks5''\<rparr>
                   in if get_proxy_ip env i (address proxy_info) = []
                      then (Inl (raise_SSHError ''Cannot connect to forwarded proxy.''),
                            kill_ssh_connection i s1)
                      else (Inr proxy_info, s1))))"

text \<open>
  \<^verbatim>\<open>connect_ssh\<close>. The session of the port, if any, is killed first, and an
  \<^verbatim>\<open>SSHError\<close> of that call is passed over (\<^verbatim>\<open>kill_proxy_on_port\<close> raises nothing
  else). The handlers follow the source's order: \<^verbatim>\<open>OSError\<close> calls \<^verbatim>\<open>connect_ssh\<close>
  again with the port now chosen and \<open>retry - 1\<close> while \<open>retry > 0\<close>, and raises
  \<^verbatim>\<open>SSHError\<close> otherwise; the two classes of the second clause raise \<^verbatim>\<open>SSHError\<close>; an
  \<^verbatim>\<open>SSHError\<close> goes through the outer handler, which logs and raises it again; an
  exception of no handler's class leaves the function. After
  a successful attempt the session is appended to \<^verbatim>\<open>proxies\<close>. Logging is left out.
  The arguments are in the source's order: \<open>h\<close>, \<open>u\<close>, \<open>pw\<close>, \<open>p\<close>, \<open>sp\<close> stand for
  \<^verbatim>\<open>host\<close>, \<^verbatim>\<open>username\<close>, \<^verbatim>\<open>password\<close>, \<^verbatim>\<open>port\<close>, \<^verbatim>\<open>ssh_port\<close>.
\<close>

function connect_ssh ::
  "env \<Rightarrow> string \<Rightarrow> string \<Rightarrow> string \<Rightarrow> int option \<Rightarrow> int \<Rightarrow> int \<Rightarrow> world
     \<Rightarrow> (exc + ProxyInfo) \<times> world" where
  "connect_ssh env h u pw p sp retry s =
     (let (p', s0) = resolve_port env p s;
          s1 = snd (kill_proxy_on_port p' s0);
          (r, s2) = connect_ssh_try env h u pw p' sp s1
      in case r of
           Inr proxy_info \<Rightarrow> (Inr proxy_info, s2\<lparr>proxies := proxies s2 @ [proxy_info]\<rparr>)
         | Inl e \<Rightarrow>
             (case exc_class e of
                OSError \<Rightarrow>
                  if retry > 0
                  then connect_ssh env h u pw (Some p') sp (retry - 1) s2
                  else (Inl (raise_SSHError (wrap_exc e)), s2)
              | AsyncsshError \<Rightarrow> (Inl (raise_SSHError (wrap_exc e)), s2)
              | AsyncioTimeoutError \<Rightarrow> (Inl (raise_SSHError (wrap_exc e)), s2)
              | SSHError \<Rightarrow> (Inl e, s2)
              | OtherException \<Rightarrow> (Inl e, s2)))"
  by pat_completeness auto
termination
  by (relation "measure (\<lambda>(env, h, u, pw, p, sp, retry, s). nat retry)") auto

declare connect_ssh.simps [simp del]

text \<open>
  \<^verbatim>\<open>verify_ssh\<close>: \<^verbatim>\<open>connect_ssh\<close> with its default port (\<^verbatim>\<open>None\<close>) and its default
  \<open>retry = 3\<close>; the connection of the session returned is closed; only
  \<^verbatim>\<open>SSHError\<close> is caught, and any other exception leaves the function.
\<close>

definition verify_ssh ::
  "env \<Rightarrow> string \<Rightarrow> string \<Rightarrow> string \<Rightarrow> int \<Rightarrow> world \<Rightarrow> (exc + bool) \<times> world" where
  "verify_ssh env h u pw sp s =
     (case connect_ssh env h u pw None sp 3 s of
        (Inr proxy_info, s1) \<Rightarrow> (Inr True, kill_ssh_connection (connection proxy_info) s1)
      | (Inl e, s1) \<Rightarrow>
          (if exc_class e = SSHError then (Inr False, s1) else (Inl e, s1)))"

text \<open>Sequences of calls of the module's two mutators, from the state at import.\<close>

datatype op =
    Connect string string string "int option" int int
  | Kill int

fun step :: "env \<Rightarrow> world \<Rightarrow> op \<Rightarrow> world" where
  "step env s (Connect h u pw p sp retry) =
     snd (connect_ssh env h u pw p sp retry s)"
| "step env s (Kill p) = snd (kill_proxy_on_port p s)"

definition run :: "env \<Rightarrow> op list \<Rightarrow> world" where
  "run env ops = foldl (step env) init_world ops"

text \<open>
  The statements of \<^verbatim>\<open>connect_ssh\<close> before its \<^verbatim>\<open>try\<close>: the port is chosen and the
  session of that port, if any, is killed. The result is the port and the state in
  which the attempt starts.
\<close>

definition attempt_start :: "env \<Rightarrow> int option \<Rightarrow> world \<Rightarrow> int \<times> world" where
  "attempt_start env p s =
     (let (p', s0) = resolve_port env p s in (p', snd (kill_proxy_on_port p' s0)))"

subsection \<open>Example collaborators\<close>

text \<open>An endpoint that refuses every connection.\<close>

definition refusing_env :: env where
  "refusing_env =
     \<lparr>get_free_port = (\<lambda>n. 20000 + int n),
      asyncssh_connect = (\<lambda>i h u pw sp.
         Some (Exc OSError ''ConnectionRefusedError'' ''[Errno 111] Connect call failed'')),
      forward_socks = (\<lambda>i p. None),
      get_proxy_ip = (\<lambda>i a. ''203.0.113.7'')\<rparr>"

text \<open>An endpoint that refuses the first two connections and rejects the password then.\<close>

definition flaky_env :: env where
  "flaky_env =
     \<lparr>get_free_port = (\<lambda>n. 20000 + int n),
      asyncssh_connect = (\<lambda>i h u pw sp.
         if i < 2
         then Some (Exc OSError ''ConnectionRefusedError'' ''[Errno 111] Connect call failed'')
         else Some (Exc AsyncsshError ''PermissionDenied'' ''Permission denied'')),
      forward_socks = (\<lambda>i p. None),
      get_proxy_ip = (\<lambda>i a. ''203.0.113.7'')\<rparr>"

text \<open>
  An endpoint that answers no connection in time: \<^verbatim>\<open>asyncssh.connect\<close> gives up after
  its \<^verbatim>\<open>connect_timeout\<close> with an \<^verbatim>\<open>asyncio.TimeoutError\<close>.
\<close>

definition timeout_env :: env where
  "timeout_env =
     \<lparr>get_free_port = (\<lambda>n. 20000 + int n),
      asyncssh_connect = (\<lambda>i h u pw sp. Some (Exc AsyncioTimeoutError ''TimeoutError'' [])),
      forward_socks = (\<lambda>i p. None),
      get_proxy_ip = (\<lambda>i a. ''203.0.113.7'')\<rparr>"

text \<open>
  A library that accepts every login on a port from 0 to 65535 and raises
  \<^verbatim>\<open>OverflowError\<close> for any other port number.
\<close>

definition overflow_env :: env where
  "overflow_env =
     \<lparr>get_free_port = (\<lambda>n. 20000 + int n),
      asyncssh_connect = (\<lambda>i h u pw sp.
         if 0 \<le> sp \<and> sp \<le> 65535 then None
         else Some (Exc OtherException ''OverflowError'' ''port must be 0-65535'')),
      forward_socks = (\<lambda>i p. None),
      get_proxy_ip = (\<lambda>i a. ''203.0.113.7'')\<rparr>"

text \<open>An endpoint that accepts the login, forwards, and answers the address lookup.\<close>

definition live_env :: env where
  "live_env =
     \<lparr>get_free_port = (\<lambda>n. 20000 + int n),
      asyncssh_connect = (\<lambda>i h u pw sp. None),
      forward_socks = (\<lambda>i p. None),
      get_proxy_ip = (\<lambda>i a. ''203.0.113.7'')\<rparr>"

definition one_session :: "op list" where
  "one_session = [Connect ''10.0.0.5'' ''admin'' ''secret'' (Some 20000) 22 3]"

section \<open>Properties of the algorithm negotiation profile\<close>

lemma bytes_split_jsch_kex_algs:
  "bytes_split CHR '','' jsch_kex_algs =
     [''ecdh-sha2-nistp256'', ''ecdh-sha2-nistp384'', ''ecdh-sha2-nistp521'',
      ''diffie-hellman-group14-sha1'', ''diffie-hellman-group-exchange-sha256'',
      ''diffie-hellman-group-exchange-sha1'', ''diffie-hellman-group1-sha1'']"
  by (simp add: jsch_kex_algs_def)

lemma kex_algs_get_algs_config:
  "kex_algs (get_algs_config lib) =
     [''ecdh-sha2-nistp256'', ''ecdh-sha2-nistp384'', ''ecdh-sha2-nistp521'',
      ''diffie-hellman-group14-sha1'', ''diffie-hellman-group-exchange-sha256'',
      ''diffie-hellman-group-exchange-sha1'', ''diffie-hellman-group1-sha1'']"
  by (simp add: get_algs_config_def Let_def decode_nonempty_def bytes_split_jsch_kex_algs)

text \<open>
  Claim C10 says that the key-exchange list returned by \<^verbatim>\<open>get_algs_config\<close> never
  holds \<^verbatim>\<open>ecdh-sha2-nistp521\<close>. The function does remove that name from the library's
  list, but it then replaces the list by a constant one that names the curve again:
  whatever the library offers, the list returned holds \<^verbatim>\<open>ecdh-sha2-nistp521\<close>.
\<close>

theorem kex_algs_contains_nistp521:
  "''ecdh-sha2-nistp521'' \<in> set (kex_algs (get_algs_config lib))"
  by (simp add: kex_algs_get_algs_config)

section \<open>Properties of the tunnel session manager\<close>

subsection \<open>The registry\<close>

lemma find_port_None: "find (\<lambda>q. port q = p) xs = None \<longleftrightarrow> p \<notin> set (map port xs)"
  by (induction xs) auto

lemma find_port_Some:
  "find (\<lambda>q. port q = p) xs = Some x \<Longrightarrow> x \<in> set xs \<and> port x = p"
  by (induction xs) (auto split: if_splits)

lemma distinct_ports_remove1:
  "distinct (map port xs) \<Longrightarrow> distinct (map port (remove1 x xs))"
  by (auto simp: distinct_map dest: inj_on_subset [OF _ set_remove1_subset])

lemma port_gone_remove1:
  "distinct (map port xs) \<Longrightarrow> x \<in> set xs \<Longrightarrow> port x \<notin> set (map port (remove1 x xs))"
  by (induction xs) (auto simp: image_iff)

lemma kill_absent:
  "p \<notin> set (map port (proxies s)) \<Longrightarrow>
   kill_proxy_on_port p s =
     (Inl (raise_SSHError (''No proxy on port '' @ str_int p @ '' found.'')), s)"
  using find_port_None [of p "proxies s"] by (simp add: kill_proxy_on_port_def)

lemma kill_present:
  assumes "p \<in> set (map port (proxies s))"
  shows "\<exists>x \<in> set (proxies s). port x = p \<and>
           kill_proxy_on_port p s =
             (Inr (), s\<lparr>proxies := remove1 x (proxies s),
                        closed := closed s @ [connection x]\<rparr>)"
proof -
  from assms obtain x where x: "find (\<lambda>q. port q = p) (proxies s) = Some x"
    using find_port_None [of p "proxies s"]
    by (cases "find (\<lambda>q. port q = p) (proxies s)") auto
  from find_port_Some [OF x] x show ?thesis
    by (auto simp: kill_proxy_on_port_def kill_ssh_connection_def)
qed

lemma kill_distinct:
  "distinct (map port (proxies s)) \<Longrightarrow>
   distinct (map port (proxies (snd (kill_proxy_on_port p s))))"
  by (auto simp: kill_proxy_on_port_def kill_ssh_connection_def distinct_ports_remove1
           split: option.splits)

lemma kill_no_port:
  "distinct (map port (proxies s)) \<Longrightarrow>
   p \<notin> set (map port (proxies (snd (kill_proxy_on_port p s))))"
  using find_port_None [of p "proxies s"]
  by (auto simp: kill_proxy_on_port_def kill_ssh_connection_def split: option.splits
           dest!: find_port_Some port_gone_remove1)

text \<open>\<^verbatim>\<open>kill_proxy_on_port\<close> raises nothing but \<^verbatim>\<open>SSHError\<close>.\<close>

lemma kill_raises_SSHError:
  "fst (kill_proxy_on_port p s) = Inl e \<Longrightarrow> exc_class e = SSHError"
  by (auto simp: kill_proxy_on_port_def raise_SSHError_def split: option.splits)

lemma kill_connect_calls: "connect_calls (snd (kill_proxy_on_port p s)) = connect_calls s"
  by (simp add: kill_proxy_on_port_def kill_ssh_connection_def split: option.splits)

lemma resolve_proxies: "proxies (snd (resolve_port env p s)) = proxies s"
  by (auto simp: resolve_port_def split: option.splits)

lemma resolve_connect_calls: "connect_calls (snd (resolve_port env p s)) = connect_calls s"
  by (simp add: resolve_port_def split: option.splits)

lemma attempt_start_connect_calls:
  "attempt_start env p s = (p', s1) \<Longrightarrow> connect_calls s1 = connect_calls s"
  using resolve_connect_calls [of env p s]
  by (auto simp: attempt_start_def Let_def kill_connect_calls split: prod.splits)

lemma attempt_start_distinct:
  assumes "attempt_start env p s = (p', s1)" and "distinct (map port (proxies s))"
  shows "distinct (map port (proxies s1)) \<and> p' \<notin> set (map port (proxies s1))"
proof -
  obtain s0 where r: "resolve_port env p s = (p', s0)" and s1: "s1 = snd (kill_proxy_on_port p' s0)"
    using assms(1) by (auto simp: attempt_start_def Let_def split: prod.splits)
  from r have "proxies s0 = proxies s" using resolve_proxies [of env p s] by simp
  with assms(2) show ?thesis
    unfolding s1 using kill_distinct [of s0 p'] kill_no_port [of s0 p'] by simp
qed

subsection \<open>One attempt\<close>

lemma try_connect_raises:
  assumes "asyncssh_connect env (length (connect_calls s1)) h u pw sp = Some e"
  shows "connect_ssh_try env h u pw p' sp s1 =
           (Inl e, s1\<lparr>connect_calls := connect_calls s1 @ [(h, u, pw, sp)]\<rparr>)"
  using assms by (simp add: connect_ssh_try_def Let_def)

lemma try_result:
  assumes "connect_ssh_try env h u pw p' sp s1 = (r, s2)"
  shows "case r of
           Inl e \<Rightarrow> proxies s2 = proxies s1 \<and>
                    (exc_class e = OtherException \<longrightarrow>
                       asyncssh_connect env (length (connect_calls s1)) h u pw sp = Some e \<or>
                       forward_socks env (length (connect_calls s1)) p' = Some e)
         | Inr x \<Rightarrow> x = \<lparr>port = p', connection = length (connect_calls s1),
                         host = ''localhost'', proxy_type = ''socks5''\<rparr> \<and>
                    s2 = s1\<lparr>connect_calls := connect_calls s1 @ [(h, u, pw, sp)]\<rparr> \<and>
                    asyncssh_connect env (connection x) h u pw sp = None \<and>
                    forward_socks env (connection x) (port x) = None \<and>
                    get_proxy_ip env (connection x) (address x) \<noteq> []"
  using assms
  by (auto simp: connect_ssh_try_def Let_def kill_ssh_connection_def raise_SSHError_def
           split: option.splits if_splits sum.splits)

text \<open>\<^verbatim>\<open>connect_ssh\<close>, one call unfolded, with the handlers as a chain of tests.\<close>

lemma connect_ssh_unfold:
  "connect_ssh env h u pw p sp retry s =
     (case attempt_start env p s of (p', s1) \<Rightarrow>
        (case connect_ssh_try env h u pw p' sp s1 of
           (Inr x, s2) \<Rightarrow> (Inr x, s2\<lparr>proxies := proxies s2 @ [x]\<rparr>)
         | (Inl e, s2) \<Rightarrow>
             (if exc_class e = OSError
              then (if retry > 0 then connect_ssh env h u pw (Some p') sp (retry - 1) s2
                    else (Inl (raise_SSHError (wrap_exc e)), s2))
              else if exc_class e = SSHError \<or> exc_class e = OtherException
              then (Inl e, s2)
              else (Inl (raise_SSHError (wrap_exc e)), s2))))"
  by (subst connect_ssh.simps)
     (simp add: attempt_start_def Let_def split: prod.splits sum.splits exc_class.splits)

subsection \<open>What a call of \<^verbatim>\<open>connect_ssh\<close> returns\<close>

text \<open>
  What \<^verbatim>\<open>connect_ssh\<close> raises is an \<^verbatim>\<open>SSHError\<close>, or an exception of no handler's
  class that a collaborator raised; a session it returns is registered, and its
  connection was opened, forwarded and answered the address lookup.
\<close>

lemma connect_ssh_result:
  "case connect_ssh env h u pw p sp retry s of
     (Inl e, s') \<Rightarrow>
       exc_class e = SSHError \<or>
       exc_class e = OtherException \<and>
       (\<exists>i. asyncssh_connect env i h u pw sp = Some e \<or> (\<exists>q. forward_socks env i q = Some e))
   | (Inr x, s') \<Rightarrow>
       x \<in> set (proxies s') \<and>
       asyncssh_connect env (connection x) h u pw sp = None \<and>
       forward_socks env (connection x) (port x) = None \<and>
       get_proxy_ip env (connection x) (address x) \<noteq> []"
proof (induction "nat retry" arbitrary: retry p s)
  case 0
  obtain p' s1 where a: "attempt_start env p s = (p', s1)"
    by (cases "attempt_start env p s")
  obtain r s2 where t: "connect_ssh_try env h u pw p' sp s1 = (r, s2)"
    by (cases "connect_ssh_try env h u pw p' sp s1")
  from 0 have "\<not> retry > 0" by simp
  with a t try_result [OF t] show ?case
    by (subst connect_ssh_unfold) (auto simp: raise_SSHError_def split: sum.splits)
next
  case (Suc n)
  obtain p' s1 where a: "attempt_start env p s = (p', s1)"
    by (cases "attempt_start env p s")
  obtain r s2 where t: "connect_ssh_try env h u pw p' sp s1 = (r, s2)"
    by (cases "connect_ssh_try env h u pw p' sp s1")
  from Suc(2) have "n = nat (retry - 1)" and pos: "retry > 0" by simp_all
  from Suc(1) [OF this(1), of "Some p'" s2] a t try_result [OF t] pos show ?case
    by (subst connect_ssh_unfold) (auto simp: raise_SSHError_def split: sum.splits)
qed

text \<open>No call of \<^verbatim>\<open>connect_ssh\<close> gives a port a second session.\<close>

lemma connect_distinct:
  "distinct (map port (proxies s)) \<Longrightarrow>
   distinct (map port (proxies (snd (connect_ssh env h u pw p sp retry s))))"
proof (induction "nat retry" arbitrary: retry p s)
  case 0
  obtain p' s1 where a: "attempt_start env p s = (p', s1)"
    by (cases "attempt_start env p s")
  obtain r s2 where t: "connect_ssh_try env h u pw p' sp s1 = (r, s2)"
    by (cases "connect_ssh_try env h u pw p' sp s1")
  from 0 have "\<not> retry > 0" by simp
  with a t try_result [OF t] attempt_start_distinct [OF a "0.prems"] show ?case
    by (subst connect_ssh_unfold) (auto split: sum.splits)
next
  case (Suc n)
  obtain p' s1 where a: "attempt_start env p s = (p', s1)"
    by (cases "attempt_start env p s")
  obtain r s2 where t: "connect_ssh_try env h u pw p' sp s1 = (r, s2)"
    by (cases "connect_ssh_try env h u pw p' sp s1")
  from Suc(2) have n: "n = nat (retry - 1)" and pos: "retry > 0" by simp_all
  note d = attempt_start_distinct [OF a Suc.prems]
  show ?case
  proof (cases r)
    case (Inr x)
    with a t try_result [OF t] d show ?thesis
      by (subst connect_ssh_unfold) auto
  next
    case (Inl e)
    with try_result [OF t] d have "distinct (map port (proxies s2))" by simp
    from Suc(1) [OF n this, of "Some p'"] Inl a t d try_result [OF t] pos show ?thesis
      by (subst connect_ssh_unfold) auto
  qed
qed

subsection \<open>The retry budget\<close>

text \<open>
  \<open>k\<close> attempts in a row that \<^verbatim>\<open>asyncssh.connect\<close> fails with an \<^verbatim>\<open>OSError\<close> take \<open>k\<close>
  from the budget, as long as the budget lasts: the call goes on as a call with
  \<open>retry - k\<close>, after \<open>k\<close> calls of \<^verbatim>\<open>asyncssh.connect\<close> with the same arguments.
\<close>

lemma connect_ssh_retries:
  assumes "\<forall>i<k. \<exists>e. asyncssh_connect env (length (connect_calls s) + i) h u pw sp = Some e
                     \<and> exc_class e = OSError"
    and "k = 0 \<or> int k \<le> retry"
  shows "\<exists>p' s'. connect_calls s' = connect_calls s @ replicate k (h, u, pw, sp) \<and>
           connect_ssh env h u pw p sp retry s =
             connect_ssh env h u pw p' sp (retry - int k) s'"
  using assms
proof (induction k arbitrary: p s retry)
  case 0
  show ?case by (rule exI [of _ p], rule exI [of _ s]) simp
next
  case (Suc k)
  obtain p' s1 where a: "attempt_start env p s = (p', s1)"
    by (cases "attempt_start env p s")
  then have c1: "connect_calls s1 = connect_calls s" by (rule attempt_start_connect_calls)
  from Suc.prems(1) obtain e
    where e: "asyncssh_connect env (length (connect_calls s)) h u pw sp = Some e"
      "exc_class e = OSError" by force
  define s2 where "s2 = s1\<lparr>connect_calls := connect_calls s1 @ [(h, u, pw, sp)]\<rparr>"
  from e c1 have t: "connect_ssh_try env h u pw p' sp s1 = (Inl e, s2)"
    unfolding s2_def by (simp add: try_connect_raises)
  from Suc.prems(2) have pos: "retry > 0" by simp
  from a t e pos
  have step: "connect_ssh env h u pw p sp retry s =
      connect_ssh env h u pw (Some p') sp (retry - 1) s2"
    by (subst connect_ssh_unfold) simp
  have c2: "connect_calls s2 = connect_calls s @ [(h, u, pw, sp)]" by (simp add: s2_def c1)
  have "\<forall>i<k. \<exists>e. asyncssh_connect env (length (connect_calls s2) + i) h u pw sp = Some e
                  \<and> exc_class e = OSError"
  proof (intro allI impI)
    fix i assume "i < k"
    then have "Suc i < Suc k" by simp
    with Suc.prems(1)
    have "\<exists>e. asyncssh_connect env (length (connect_calls s) + Suc i) h u pw sp = Some e
              \<and> exc_class e = OSError"
      by blast
    then show "\<exists>e. asyncssh_connect env (length (connect_calls s2) + i) h u pw sp = Some e
                  \<and> exc_class e = OSError"
      by (simp add: c2)
  qed
  moreover from Suc.prems(2) have "k = 0 \<or> int k \<le> retry - 1" by simp
  ultimately obtain p'' s' where
    "connect_calls s' = connect_calls s2 @ replicate k (h, u, pw, sp)"
    "connect_ssh env h u pw (Some p') sp (retry - 1) s2 =
       connect_ssh env h u pw p'' sp (retry - 1 - int k) s'"
    using Suc.IH [of s2 "retry - 1" "Some p'"] by blast
  with step c2 show ?case
    by (intro exI [of _ p''] exI [of _ s']) (simp add: replicate_app_Cons_same algebra_simps)
qed

text \<open>
  An attempt ends the call when \<^verbatim>\<open>asyncssh.connect\<close> fails with an \<^verbatim>\<open>OSError\<close> and no
  budget is left, or with an exception of the second handler.
\<close>

lemma connect_ssh_last_failure:
  assumes "asyncssh_connect env (length (connect_calls s)) h u pw sp = Some e"
    and "exc_class e = OSError \<and> retry \<le> 0 \<or> exc_class e = AsyncsshError
         \<or> exc_class e = AsyncioTimeoutError"
  shows "\<exists>s'. connect_calls s' = connect_calls s @ [(h, u, pw, sp)] \<and>
           connect_ssh env h u pw p sp retry s = (Inl (raise_SSHError (wrap_exc e)), s')"
proof -
  obtain p' s1 where a: "attempt_start env p s = (p', s1)"
    by (cases "attempt_start env p s")
  then have c1: "connect_calls s1 = connect_calls s" by (rule attempt_start_connect_calls)
  define s2 where "s2 = s1\<lparr>connect_calls := connect_calls s1 @ [(h, u, pw, sp)]\<rparr>"
  from assms(1) c1 have t: "connect_ssh_try env h u pw p' sp s1 = (Inl e, s2)"
    unfolding s2_def by (simp add: try_connect_raises)
  from a t assms(2)
  have "connect_ssh env h u pw p sp retry s = (Inl (raise_SSHError (wrap_exc e)), s2)"
    by (subst connect_ssh_unfold) auto
  moreover have "connect_calls s2 = connect_calls s @ [(h, u, pw, sp)]" by (simp add: s2_def c1)
  ultimately show ?thesis by blast
qed

text \<open>
  Claim C1 says that transport failures, a timeout during the connection among
  them, are retried up to \<open>retry\<close> times, and that only protocol failures end the
  call at once. It fails for the timeout of the connection: the
  \<^verbatim>\<open>asyncio.TimeoutError\<close> with which \<^verbatim>\<open>asyncssh.connect\<close> gives up after its
  \<^verbatim>\<open>connect_timeout\<close> is named by the second handler, which does not retry. With
  \<open>retry = 3\<close> and an endpoint that never answers in time, \<^verbatim>\<open>asyncssh.connect\<close> is
  called once and the call fails with an \<^verbatim>\<open>SSHError\<close>.
\<close>

theorem connect_ssh_timeout_not_retried:
  "connect_ssh timeout_env ''10.0.0.5'' ''admin'' ''secret'' None 22 3 init_world =
     (Inl (raise_SSHError ''TimeoutError: .''),
      \<lparr>proxies = [], connect_calls = [(''10.0.0.5'', ''admin'', ''secret'', 22)],
       closed = [], free_port_calls = 1\<rparr>)"
  by (subst connect_ssh_unfold)
     (simp add: attempt_start_def resolve_port_def kill_proxy_on_port_def connect_ssh_try_def
        timeout_env_def init_world_def raise_SSHError_def wrap_exc_def Let_def)

text \<open>
  Claim C1 as amended: failures of the connection that are \<^verbatim>\<open>OSError\<close>s (connection
  refused, network unreachable, a timeout reported by the operating system) are
  retried with the same arguments, each retry taking one from the budget \<open>retry\<close>;
  when the budget is used up the call fails with an \<^verbatim>\<open>SSHError\<close> that wraps the last
  cause; a protocol failure (an \<^verbatim>\<open>asyncssh.Error\<close>) and an \<^verbatim>\<open>asyncio.TimeoutError\<close> that
  is not an \<^verbatim>\<open>OSError\<close> are not retried and fail at once with an \<^verbatim>\<open>SSHError\<close> that wraps
  them. Here \<open>k\<close> is the number of transport failures before the attempt looked at,
  \<open>e\<close> what that attempt raises: with budget left an \<^verbatim>\<open>OSError\<close> leads to the same call
  with \<open>retry - k - 1\<close>; with none left it ends the call after \<open>k + 1\<close> attempts; an
  \<^verbatim>\<open>asyncssh.Error\<close> or an \<^verbatim>\<open>asyncio.TimeoutError\<close> ends the call after \<open>k + 1\<close> attempts
  whatever budget is left.
\<close>

theorem connect_ssh_retry_policy:
  assumes "\<forall>i<k. \<exists>e. asyncssh_connect env (length (connect_calls s) + i) h u pw sp = Some e
                     \<and> exc_class e = OSError"
    and "k = 0 \<or> int k \<le> retry"
    and "asyncssh_connect env (length (connect_calls s) + k) h u pw sp = Some e"
  shows "(exc_class e = OSError \<and> int k < retry \<longrightarrow>
            (\<exists>p' s'. connect_calls s' = connect_calls s @ replicate (k + 1) (h, u, pw, sp) \<and>
               connect_ssh env h u pw p sp retry s =
                 connect_ssh env h u pw (Some p') sp (retry - int k - 1) s')) \<and>
         (exc_class e = OSError \<and> retry \<le> int k \<longrightarrow>
            (\<exists>s'. connect_calls s' = connect_calls s @ replicate (k + 1) (h, u, pw, sp) \<and>
               connect_ssh env h u pw p sp retry s =
                 (Inl (raise_SSHError (wrap_exc e)), s'))) \<and>
         (exc_class e = AsyncsshError \<longrightarrow>
            (\<exists>s'. connect_calls s' = connect_calls s @ replicate (k + 1) (h, u, pw, sp) \<and>
               connect_ssh env h u pw p sp retry s =
                 (Inl (raise_SSHError (wrap_exc e)), s'))) \<and>
         (exc_class e = AsyncioTimeoutError \<longrightarrow>
            (\<exists>s'. connect_calls s' = connect_calls s @ replicate (k + 1) (h, u, pw, sp) \<and>
               connect_ssh env h u pw p sp retry s =
                 (Inl (raise_SSHError (wrap_exc e)), s')))"
proof -
  from assms(1,2) obtain q t
    where t: "connect_calls t = connect_calls s @ replicate k (h, u, pw, sp)"
      and eq: "connect_ssh env h u pw p sp retry s =
                 connect_ssh env h u pw q sp (retry - int k) t"
    using connect_ssh_retries [of k env s h u pw sp retry p] by blast
  from t assms(3) have e: "asyncssh_connect env (length (connect_calls t)) h u pw sp = Some e"
    by simp
  have app: "connect_calls t @ [(h, u, pw, sp)] =
      connect_calls s @ replicate (k + 1) (h, u, pw, sp)"
    by (simp add: t replicate_append_same)
  have last: "\<exists>s'. connect_calls s' = connect_calls s @ replicate (k + 1) (h, u, pw, sp) \<and>
               connect_ssh env h u pw p sp retry s = (Inl (raise_SSHError (wrap_exc e)), s')"
    if "exc_class e = OSError \<and> retry - int k \<le> 0 \<or> exc_class e = AsyncsshError
        \<or> exc_class e = AsyncioTimeoutError"
    using connect_ssh_last_failure [OF e that, of q] eq app by auto
  have again: "\<exists>p' s'. connect_calls s' = connect_calls s @ replicate (k + 1) (h, u, pw, sp) \<and>
               connect_ssh env h u pw p sp retry s =
                 connect_ssh env h u pw (Some p') sp (retry - int k - 1) s'"
    if c: "exc_class e = OSError" and lt: "int k < retry"
  proof -
    obtain p' s1 where a: "attempt_start env q t = (p', s1)"
      by (cases "attempt_start env q t")
    then have c1: "connect_calls s1 = connect_calls t" by (rule attempt_start_connect_calls)
    define s2 where "s2 = s1\<lparr>connect_calls := connect_calls s1 @ [(h, u, pw, sp)]\<rparr>"
    from e c1 have "connect_ssh_try env h u pw p' sp s1 = (Inl e, s2)"
      unfolding s2_def by (simp add: try_connect_raises)
    with a c lt have "connect_ssh env h u pw q sp (retry - int k) t =
        connect_ssh env h u pw (Some p') sp (retry - int k - 1) s2"
      by (subst connect_ssh_unfold) simp
    moreover have "connect_calls s2 = connect_calls s @ replicate (k + 1) (h, u, pw, sp)"
      by (simp add: s2_def c1 app)
    ultimately show ?thesis using eq by auto
  qed
  from last again show ?thesis by auto
qed

theorem connect_ssh_retry_policy_witness:
  "(\<exists>s'. connect_calls s' = replicate 3 (''10.0.0.5'', ''admin'', ''secret'', 22) \<and>
      connect_ssh flaky_env ''10.0.0.5'' ''admin'' ''secret'' None 22 3 init_world =
        (Inl (raise_SSHError ''PermissionDenied: Permission denied.''), s')) \<and>
   (\<exists>s'. connect_calls s' = replicate 2 (''10.0.0.5'', ''admin'', ''secret'', 22) \<and>
      connect_ssh flaky_env ''10.0.0.5'' ''admin'' ''secret'' None 22 1 init_world =
        (Inl (raise_SSHError ''ConnectionRefusedError: [Errno 111] Connect call failed.''),
         s')) \<and>
   (\<exists>p' s'. connect_calls s' = replicate 1 (''10.0.0.5'', ''admin'', ''secret'', 22) \<and>
      connect_ssh flaky_env ''10.0.0.5'' ''admin'' ''secret'' None 22 3 init_world =
        connect_ssh flaky_env ''10.0.0.5'' ''admin'' ''secret'' (Some p') 22 2 s') \<and>
   (\<exists>s'. connect_calls s' = replicate 1 (''10.0.0.5'', ''admin'', ''secret'', 22) \<and>
      connect_ssh timeout_env ''10.0.0.5'' ''admin'' ''secret'' None 22 3 init_world =
        (Inl (raise_SSHError ''TimeoutError: .''), s'))"
  using connect_ssh_retry_policy
          [of 0 timeout_env init_world "''10.0.0.5''" "''admin''" "''secret''" 22 3
              "Exc AsyncioTimeoutError ''TimeoutError'' []" None]
        connect_ssh_retry_policy
          [of 2 flaky_env init_world "''10.0.0.5''" "''admin''" "''secret''" 22 3
              "Exc AsyncsshError ''PermissionDenied'' ''Permission denied''" None]
        connect_ssh_retry_policy
          [of 1 flaky_env init_world "''10.0.0.5''" "''admin''" "''secret''" 22 1
              "Exc OSError ''ConnectionRefusedError'' ''[Errno 111] Connect call failed''" None]
        connect_ssh_retry_policy
          [of 0 flaky_env init_world "''10.0.0.5''" "''admin''" "''secret''" 22 3
              "Exc OSError ''ConnectionRefusedError'' ''[Errno 111] Connect call failed''" None]
  by (simp add: flaky_env_def timeout_env_def init_world_def wrap_exc_def
        numeral_2_eq_2 numeral_3_eq_3)

text \<open>
  Claim C3: when the endpoint refuses every connection (every call of
  \<^verbatim>\<open>asyncssh.connect\<close> raises an \<^verbatim>\<open>OSError\<close>), \<^verbatim>\<open>connect_ssh\<close> with \<open>retry = N\<close> calls
  \<^verbatim>\<open>asyncssh.connect\<close> exactly \<open>N + 1\<close> times, each time with the same arguments, and
  then raises \<^verbatim>\<open>SSHError\<close>.
\<close>

theorem connect_ssh_retry_bound:
  assumes "\<forall>i. \<exists>e. asyncssh_connect env i h u pw sp = Some e \<and> exc_class e = OSError"
  shows "\<exists>msg s'. connect_ssh env h u pw p sp (int N) s = (Inl (raise_SSHError msg), s') \<and>
           connect_calls s' = connect_calls s @ replicate (N + 1) (h, u, pw, sp)"
proof -
  from assms
  have "\<forall>i<N. \<exists>e. asyncssh_connect env (length (connect_calls s) + i) h u pw sp = Some e
                  \<and> exc_class e = OSError" by blast
  then obtain p' s1
    where s1: "connect_calls s1 = connect_calls s @ replicate N (h, u, pw, sp)"
      and eq: "connect_ssh env h u pw p sp (int N) s =
                 connect_ssh env h u pw p' sp (int N - int N) s1"
    using connect_ssh_retries [of N env s h u pw sp "int N" p] by auto
  from assms obtain e
    where e: "asyncssh_connect env (length (connect_calls s1)) h u pw sp = Some e"
      "exc_class e = OSError" by blast
  then obtain s' where "connect_calls s' = connect_calls s1 @ [(h, u, pw, sp)]"
    "connect_ssh env h u pw p' sp 0 s1 = (Inl (raise_SSHError (wrap_exc e)), s')"
    using connect_ssh_last_failure [of env s1 h u pw sp e 0 p'] by auto
  with s1 eq show ?thesis by (auto simp: replicate_append_same)
qed

theorem connect_ssh_retry_bound_witness:
  "\<exists>msg s'. connect_ssh refusing_env ''10.0.0.5'' ''admin'' ''secret'' None 22 (int 3) init_world =
       (Inl (raise_SSHError msg), s') \<and>
     connect_calls s' = replicate 4 (''10.0.0.5'', ''admin'', ''secret'', 22)"
  using connect_ssh_retry_bound
          [of refusing_env "''10.0.0.5''" "''admin''" "''secret''" 22 None 3 init_world]
  by (simp add: refusing_env_def init_world_def)

subsection \<open>Verification of a login\<close>

text \<open>
  What \<^verbatim>\<open>verify_ssh\<close> does, for all collaborators. Either it returns a boolean: true
  exactly when \<^verbatim>\<open>connect_ssh\<close> returned a session, whose connection was then opened,
  forwarded and answered the address lookup with a non-empty address, and false
  exactly when \<^verbatim>\<open>connect_ssh\<close> raised an \<^verbatim>\<open>SSHError\<close>. Or it raises an exception of no
  handler's class that a collaborator raised.
\<close>

lemma verify_ssh_result:
  "(\<exists>b s'. verify_ssh env h u pw sp s = (Inr b, s') \<and>
      (b \<longleftrightarrow> (\<exists>x s1. connect_ssh env h u pw None sp 3 s = (Inr x, s1) \<and>
                 asyncssh_connect env (connection x) h u pw sp = None \<and>
                 forward_socks env (connection x) (port x) = None \<and>
                 get_proxy_ip env (connection x) (address x) \<noteq> [])) \<and>
      (\<not> b \<longleftrightarrow> (\<exists>e. fst (connect_ssh env h u pw None sp 3 s) = Inl e \<and>
                    exc_class e = SSHError))) \<or>
   (\<exists>e s'. verify_ssh env h u pw sp s = (Inl e, s') \<and> exc_class e = OtherException \<and>
      (\<exists>i. asyncssh_connect env i h u pw sp = Some e \<or> (\<exists>q. forward_socks env i q = Some e)))"
proof -
  obtain r s1 where c: "connect_ssh env h u pw None sp 3 s = (r, s1)"
    by (cases "connect_ssh env h u pw None sp 3 s")
  with connect_ssh_result [where env = env and h = h and u = u and pw = pw and p = None
         and sp = sp and retry = 3 and s = s]
  show ?thesis
    by (cases r) (auto simp: verify_ssh_def)
qed

text \<open>
  Claim C8 says that \<^verbatim>\<open>verify_ssh\<close> never raises: it returns true when the login was
  fully established and false otherwise, as its docstring says. The function
  catches \<^verbatim>\<open>SSHError\<close> alone, and \<^verbatim>\<open>connect_ssh\<close> turns only \<^verbatim>\<open>OSError\<close>,
  \<^verbatim>\<open>asyncssh.Error\<close> and \<^verbatim>\<open>asyncio.TimeoutError\<close> into \<^verbatim>\<open>SSHError\<close>. For the port 70000,
  which the \<^verbatim>\<open>SSH\<close> entity accepts, the connection call raises \<^verbatim>\<open>OverflowError\<close>, and
  \<^verbatim>\<open>verify_ssh\<close> raises it instead of returning false.
\<close>

theorem verify_ssh_raises_overflow:
  "verify_ssh overflow_env ''127.0.0.1'' ''admin'' ''secret'' 70000 init_world =
     (Inl (Exc OtherException ''OverflowError'' ''port must be 0-65535''),
      \<lparr>proxies = [], connect_calls = [(''127.0.0.1'', ''admin'', ''secret'', 70000)],
       closed = [], free_port_calls = 1\<rparr>)"
  unfolding verify_ssh_def
  by (subst connect_ssh_unfold)
     (simp add: attempt_start_def resolve_port_def kill_proxy_on_port_def connect_ssh_try_def
        overflow_env_def init_world_def raise_SSHError_def Let_def)

lemma connect_ssh_live_env:
  "connect_ssh live_env h u pw None sp 3 init_world =
     (Inr \<lparr>port = 20000, connection = 0, host = ''localhost'', proxy_type = ''socks5''\<rparr>,
      \<lparr>proxies = [\<lparr>port = 20000, connection = 0, host = ''localhost'',
                   proxy_type = ''socks5''\<rparr>],
       connect_calls = [(h, u, pw, sp)], closed = [], free_port_calls = 1\<rparr>)"
  by (subst connect_ssh_unfold)
     (simp add: attempt_start_def resolve_port_def kill_proxy_on_port_def connect_ssh_try_def
        live_env_def init_world_def raise_SSHError_def Let_def)

text \<open>
  Claim C5 says that the registry holds no session for the port of the attempt
  when \<^verbatim>\<open>verify_ssh\<close> returns, whether it returns true or false. When the login works,
  \<^verbatim>\<open>connect_ssh\<close> has appended the session to \<^verbatim>\<open>proxies\<close>, and \<^verbatim>\<open>verify_ssh\<close> closes the
  connection without taking the session out of the list: from the empty registry,
  \<^verbatim>\<open>verify_ssh\<close> returns true and leaves the session of port 20000, with its closed
  connection, in the registry.
\<close>

theorem verify_ssh_keeps_session:
  "verify_ssh live_env ''10.0.0.5'' ''admin'' ''secret'' 22 init_world =
     (Inr True,
      \<lparr>proxies = [\<lparr>port = 20000, connection = 0, host = ''localhost'',
                   proxy_type = ''socks5''\<rparr>],
       connect_calls = [(''10.0.0.5'', ''admin'', ''secret'', 22)], closed = [0],
       free_port_calls = 1\<rparr>)"
  by (simp add: verify_ssh_def connect_ssh_live_env kill_ssh_connection_def)

text \<open>The same for every login that works: the session stays, its connection closed.\<close>

lemma verify_ssh_true_registry:
  assumes "verify_ssh env h u pw sp s = (Inr True, s')"
  shows "\<exists>x \<in> set (proxies s'). connection x \<in> set (closed s')"
proof -
  obtain r s1 where c: "connect_ssh env h u pw None sp 3 s = (r, s1)"
    by (cases "connect_ssh env h u pw None sp 3 s")
  with connect_ssh_result [where env = env and h = h and u = u and pw = pw and p = None
         and sp = sp and retry = 3 and s = s] assms
  show ?thesis
    by (cases r) (auto simp: verify_ssh_def kill_ssh_connection_def split: if_splits)
qed

lemma attempt_start_fst: "fst (attempt_start env p s) = fst (resolve_port env p s)"
  by (simp add: attempt_start_def Let_def split: prod.splits)

text \<open>
  When the login does not work the claim holds: a call of \<^verbatim>\<open>connect_ssh\<close> that raises
  leaves no session on its port, so \<^verbatim>\<open>verify_ssh\<close> returns false with no session on
  the port it took; and an empty answer of the address lookup closes the connection
  just made before \<^verbatim>\<open>SSHError\<close> is raised.
\<close>

lemma connect_ssh_failure_registry:
  assumes "distinct (map port (proxies s))"
    and "connect_ssh env h u pw p sp retry s = (Inl e, s')"
    and "fst (resolve_port env p s) \<noteq> 0"
  shows "fst (resolve_port env p s) \<notin> set (map port (proxies s'))"
  using assms
proof (induction "nat retry" arbitrary: retry p s)
  case 0
  obtain p' s1 where a: "attempt_start env p s = (p', s1)"
    by (cases "attempt_start env p s")
  obtain r s2 where t: "connect_ssh_try env h u pw p' sp s1 = (r, s2)"
    by (cases "connect_ssh_try env h u pw p' sp s1")
  from a have p': "p' = fst (resolve_port env p s)" using attempt_start_fst [of env p s] by simp
  from 0 have "\<not> retry > 0" by simp
  with a t try_result [OF t] attempt_start_distinct [OF a "0.prems"(1)] "0.prems"(2) p'
  show ?case
    by (subst (asm) connect_ssh_unfold) (auto split: sum.splits if_splits)
next
  case (Suc n)
  obtain p' s1 where a: "attempt_start env p s = (p', s1)"
    by (cases "attempt_start env p s")
  obtain r s2 where t: "connect_ssh_try env h u pw p' sp s1 = (r, s2)"
    by (cases "connect_ssh_try env h u pw p' sp s1")
  from a have p': "p' = fst (resolve_port env p s)" using attempt_start_fst [of env p s] by simp
  with Suc.prems(3) have nz: "p' \<noteq> 0" by simp
  then have rp: "fst (resolve_port env (Some p') s2) = p'" by (simp add: resolve_port_def)
  from Suc(2) have n: "n = nat (retry - 1)" and pos: "retry > 0" by simp_all
  note d = attempt_start_distinct [OF a Suc.prems(1)]
  show ?case
  proof (cases r)
    case (Inr x)
    with a t Suc.prems(2) show ?thesis
      by (subst (asm) connect_ssh_unfold) simp
  next
    case (Inl e')
    with try_result [OF t] d have d2: "distinct (map port (proxies s2))"
      and n2: "p' \<notin> set (map port (proxies s2))" by simp_all
    show ?thesis
    proof (cases "exc_class e' = OSError")
      case True
      with Inl a t pos Suc.prems(2)
      have "connect_ssh env h u pw (Some p') sp (retry - 1) s2 = (Inl e, s')"
        by (subst (asm) connect_ssh_unfold) simp
      from Suc(1) [OF n d2 this] rp nz p' show ?thesis by simp
    next
      case False
      with Inl a t Suc.prems(2) n2 p' show ?thesis
        by (subst (asm) connect_ssh_unfold) (auto split: if_splits)
    qed
  qed
qed

lemma verify_ssh_false_registry:
  assumes "distinct (map port (proxies s))"
    and "verify_ssh env h u pw sp s = (Inr False, s')"
    and "get_free_port env (free_port_calls s) \<noteq> 0"
  shows "get_free_port env (free_port_calls s) \<notin> set (map port (proxies s'))"
proof -
  obtain r s1 where c: "connect_ssh env h u pw None sp 3 s = (r, s1)"
    by (cases "connect_ssh env h u pw None sp 3 s")
  with assms(2) obtain e where "r = Inl e" "s1 = s'"
    by (cases r) (auto simp: verify_ssh_def split: if_splits)
  with c connect_ssh_failure_registry [OF assms(1), of env h u pw None sp 3 e s'] assms(3)
  show ?thesis by (simp add: resolve_port_def)
qed

lemma connect_ssh_try_empty_lookup:
  assumes "asyncssh_connect env (length (connect_calls s)) h u pw sp = None"
    and "forward_socks env (length (connect_calls s)) p = None"
    and "get_proxy_ip env (length (connect_calls s))
           (address \<lparr>port = p, connection = length (connect_calls s),
                     host = ''localhost'', proxy_type = ''socks5''\<rparr>) = []"
  shows "connect_ssh_try env h u pw p sp s =
           (Inl (raise_SSHError ''Cannot connect to forwarded proxy.''),
            s\<lparr>connect_calls := connect_calls s @ [(h, u, pw, sp)],
              closed := closed s @ [length (connect_calls s)]\<rparr>)"
  using assms by (simp add: connect_ssh_try_def Let_def kill_ssh_connection_def)

subsection \<open>Teardown\<close>

text \<open>
  Claim C9: \<^verbatim>\<open>kill_proxy_on_port\<close> on a port with no session raises \<^verbatim>\<open>SSHError\<close> (and
  changes nothing); in a state reached from the empty registry by calls of
  \<^verbatim>\<open>connect_ssh\<close> and \<^verbatim>\<open>kill_proxy_on_port\<close>, killing the port of a registered session
  succeeds, takes that session out of the registry and closes its connection, and
  killing the same port again raises \<^verbatim>\<open>SSHError\<close>; and in every such state the ports
  of the registered sessions are pairwise different.
\<close>

theorem teardown_idempotence:
  "(p \<notin> set (map port (proxies s)) \<longrightarrow>
      (\<exists>e. kill_proxy_on_port p s = (Inl e, s) \<and> exc_class e = SSHError)) \<and>
   (\<forall>x \<in> set (proxies (run env ops)).
      (\<exists>s1 e. kill_proxy_on_port (port x) (run env ops) = (Inr (), s1) \<and>
               proxies s1 = remove1 x (proxies (run env ops)) \<and>
               closed s1 = closed (run env ops) @ [connection x] \<and>
               kill_proxy_on_port (port x) s1 = (Inl e, s1) \<and> exc_class e = SSHError)) \<and>
   distinct (map port (proxies (run env ops)))"
proof -
  have step_distinct: "distinct (map port (proxies (step env t o')))"
    if "distinct (map port (proxies t))" for t o'
    using that by (cases o') (simp_all add: connect_distinct kill_distinct)
  have fold_distinct: "distinct (map port (proxies (foldl (step env) t os)))"
    if "distinct (map port (proxies t))" for t os
    using that by (induction os arbitrary: t) (simp_all add: step_distinct)
  have d: "distinct (map port (proxies (run env ops)))"
    unfolding run_def by (rule fold_distinct) (simp add: init_world_def)
  have a: "p \<notin> set (map port (proxies s)) \<longrightarrow>
      (\<exists>e. kill_proxy_on_port p s = (Inl e, s) \<and> exc_class e = SSHError)"
    by (auto simp: kill_absent raise_SSHError_def simp del: set_map)
  have b: "\<exists>s1 e. kill_proxy_on_port (port x) (run env ops) = (Inr (), s1) \<and>
               proxies s1 = remove1 x (proxies (run env ops)) \<and>
               closed s1 = closed (run env ops) @ [connection x] \<and>
               kill_proxy_on_port (port x) s1 = (Inl e, s1) \<and> exc_class e = SSHError"
    if x: "x \<in> set (proxies (run env ops))" for x
  proof -
    let ?s = "run env ops"
    from x have "port x \<in> set (map port (proxies ?s))" by simp
    from kill_present [OF this] obtain y where y: "y \<in> set (proxies ?s)" "port y = port x"
      "kill_proxy_on_port (port x) ?s =
         (Inr (), ?s\<lparr>proxies := remove1 y (proxies ?s),
                     closed := closed ?s @ [connection y]\<rparr>)"
      by blast
    from d x y(1,2) have "y = x" by (auto simp: distinct_map dest: inj_onD)
    define s1 where
      "s1 = ?s\<lparr>proxies := remove1 x (proxies ?s), closed := closed ?s @ [connection x]\<rparr>"
    from d x have "port x \<notin> set (map port (proxies s1))"
      unfolding s1_def using port_gone_remove1 [of "proxies ?s" x] by simp
    then have "kill_proxy_on_port (port x) s1 =
        (Inl (raise_SSHError (''No proxy on port '' @ str_int (port x) @ '' found.'')), s1)"
      by (rule kill_absent)
    with y(3) \<open>y = x\<close> show ?thesis
      unfolding s1_def [symmetric] by (auto simp: s1_def raise_SSHError_def)
  qed
  from a b d show ?thesis by blast
qed

lemma run_one_session:
  "run live_env one_session =
      \<lparr>proxies = [\<lparr>port = 20000, connection = 0, host = ''localhost'',
                   proxy_type = ''socks5''\<rparr>],
       connect_calls = [(''10.0.0.5'', ''admin'', ''secret'', 22)], closed = [],
       free_port_calls = 0\<rparr>"
  unfolding run_def one_session_def
  by (simp, subst connect_ssh_unfold)
     (simp add: attempt_start_def resolve_port_def kill_proxy_on_port_def connect_ssh_try_def
        live_env_def init_world_def raise_SSHError_def Let_def)

theorem teardown_idempotence_witness:
  "(\<exists>e. kill_proxy_on_port 20000 init_world = (Inl e, init_world) \<and> exc_class e = SSHError) \<and>
   (\<exists>s1 e. kill_proxy_on_port 20000 (run live_env one_session) = (Inr (), s1) \<and>
        proxies s1 = [] \<and> closed s1 = [0] \<and>
        kill_proxy_on_port 20000 s1 = (Inl e, s1) \<and> exc_class e = SSHError) \<and>
   distinct (map port (proxies (run live_env one_session)))"
  using teardown_idempotence [of 20000 init_world live_env one_session]
  by (simp add: run_one_session) (simp add: init_world_def)

section \<open>Properties of the entities\<close>

subsection \<open>The flags of a port\<close>

text \<open>
  Claim C2 says that after every operation on a port \<open>is_working\<close> implies
  \<open>is_connected\<close>. It fails for \<^verbatim>\<open>disconnect_ssh\<close> (and \<^verbatim>\<open>assign_ssh\<close>, which it calls): a
  port that is connected and working is still marked as working after it was
  disconnected and written, though it is no longer connected.
\<close>

theorem disconnect_ssh_breaks_no_partial_connection:
  "is_working working_port \<and> is_connected working_port \<and>
   is_working (Port_before_update 9 ''192.0.2.1'' (disconnect_ssh working_port False)) \<and>
   \<not> is_connected (Port_before_update 9 ''192.0.2.1'' (disconnect_ssh working_port False))"
  by (simp add: working_port_def disconnect_ssh_def assign_ssh_def Port_before_update_def
        Model_before_update_def Let_def)

text \<open>
  Claim C2 as amended: after \<^verbatim>\<open>reset_status\<close> both \<open>is_working\<close> and \<open>is_connected\<close> are
  false, and the update hook changes neither flag, so both keep \<open>is_working\<close>
  implying \<open>is_connected\<close>; \<^verbatim>\<open>assign_ssh\<close> and \<^verbatim>\<open>disconnect_ssh\<close> set \<open>is_connected\<close> to
  false and leave \<open>is_working\<close> as it was, so after them the implication holds
  exactly when the port was not marked as working before.
\<close>

theorem flags_after_port_operations:
  "\<not> is_working (reset_status self) \<and>
   \<not> is_connected (reset_status self) \<and>
   is_working (Port_before_update now ipv4 self) = is_working self \<and>
   is_connected (Port_before_update now ipv4 self) = is_connected self \<and>
   no_partial_connection (reset_status self) \<and>
   (no_partial_connection self \<longrightarrow> no_partial_connection (Port_before_update now ipv4 self)) \<and>
   is_working (assign_ssh self x) = is_working self \<and>
   \<not> is_connected (assign_ssh self x) \<and>
   is_working (disconnect_ssh self r) = is_working self \<and>
   \<not> is_connected (disconnect_ssh self r) \<and>
   (no_partial_connection (assign_ssh self x) \<longleftrightarrow> \<not> is_working self) \<and>
   (no_partial_connection (disconnect_ssh self r) \<longleftrightarrow> \<not> is_working self)"
  by (auto simp: no_partial_connection_def reset_status_def Model_reset_status_def
        Port_before_update_def Model_before_update_def assign_ssh_def disconnect_ssh_def Let_def
        split: option.splits)

theorem flags_after_port_operations_witness:
  "\<not> is_working (reset_status working_port) \<and>
   \<not> is_connected (reset_status working_port) \<and>
   is_working (Port_before_update 9 ''192.0.2.1'' working_port) \<and>
   is_connected (Port_before_update 9 ''192.0.2.1'' working_port) \<and>
   no_partial_connection (reset_status working_port) \<and>
   no_partial_connection working_port \<and>
   no_partial_connection (Port_before_update 9 ''192.0.2.1'' working_port) \<and>
   \<not> no_partial_connection (assign_ssh working_port (Some 3)) \<and>
   \<not> no_partial_connection (disconnect_ssh working_port True) \<and>
   no_partial_connection (disconnect_ssh fresh_port True)"
  using flags_after_port_operations [of working_port 9 "''192.0.2.1''" "Some 3" True]
        flags_after_port_operations [of fresh_port 9 "''192.0.2.1''" "Some 3" True]
  by (simp add: working_port_def fresh_port_def no_partial_connection_def)

subsection \<open>Disconnecting and resetting a port\<close>

text \<open>
  Claim C6 says that \<^verbatim>\<open>disconnect_ssh(remove_from_used=True)\<close> leaves \<open>ssh\<close>,
  \<open>is_connected\<close>, \<open>is_working\<close>, \<open>public_ip\<close>, \<open>time_connected\<close> and \<open>used_ssh_list\<close> all
  cleared. It fails: the working port with the history \<open>{1, 2}\<close> and the login \<open>1\<close>
  assigned keeps the login \<open>2\<close> in its history, is still marked as working and
  keeps its public address, also after the update hook has run.
\<close>

theorem disconnect_ssh_keeps_history:
  "used_ssh_list (Port_before_update 9 ''192.0.2.1'' (disconnect_ssh working_port True)) = {2} \<and>
   is_working (Port_before_update 9 ''192.0.2.1'' (disconnect_ssh working_port True)) \<and>
   public_ip (Port_before_update 9 ''192.0.2.1'' (disconnect_ssh working_port True)) =
     ''203.0.113.7''"
  by (simp add: working_port_def disconnect_ssh_def assign_ssh_def Port_before_update_def
        Model_before_update_def Let_def)

text \<open>
  Claim C6 as amended: after \<^verbatim>\<open>disconnect_ssh(remove_from_used=True)\<close> the port's \<open>ssh\<close>
  is empty, \<open>is_connected\<close> is false and \<open>last_checked\<close> is empty, and once the update
  hook has run \<open>time_connected\<close> is empty; \<open>used_ssh_list\<close> has lost the login that was
  assigned and nothing else; \<open>is_working\<close> and \<open>public_ip\<close> are as before. The
  operation that clears \<open>ssh\<close>, \<open>is_connected\<close>, \<open>is_working\<close>, \<open>public_ip\<close> and the
  whole of \<open>used_ssh_list\<close> (and, with the hook, \<open>time_connected\<close>) is \<^verbatim>\<open>reset_status\<close>.
\<close>

theorem disconnect_ssh_reset:
  "ssh (disconnect_ssh self True) = None \<and>
   \<not> is_connected (disconnect_ssh self True) \<and>
   last_checked (disconnect_ssh self True) = None \<and>
   time_connected (Port_before_update now ipv4 (disconnect_ssh self True)) = None \<and>
   ssh (Port_before_update now ipv4 (disconnect_ssh self True)) = None \<and>
   \<not> is_connected (Port_before_update now ipv4 (disconnect_ssh self True)) \<and>
   used_ssh_list (Port_before_update now ipv4 (disconnect_ssh self True)) =
     (case ssh self of None \<Rightarrow> used_ssh_list self | Some x \<Rightarrow> used_ssh_list self - {x}) \<and>
   is_working (Port_before_update now ipv4 (disconnect_ssh self True)) = is_working self \<and>
   public_ip (Port_before_update now ipv4 (disconnect_ssh self True)) = public_ip self \<and>
   ssh (reset_status self) = None \<and> \<not> is_connected (reset_status self) \<and>
   \<not> is_working (reset_status self) \<and> public_ip (reset_status self) = [] \<and>
   used_ssh_list (reset_status self) = {} \<and>
   time_connected (Port_before_update now ipv4 (reset_status self)) = None"
  by (simp add: disconnect_ssh_def assign_ssh_def Port_before_update_def reset_status_def
        Model_reset_status_def Model_before_update_def Let_def split: option.splits)

subsection \<open>The history of a port\<close>

text \<open>A method of a port changes the history of that port only.\<close>

lemma used_on_port_other:
  assumes "\<And>self. used_ssh_list (f self) = g (used_ssh_list self)"
  shows "used_ssh_list (port_tbl (on_port st pid f) q) =
           (if q = pid then g (used_ssh_list (port_tbl st q)) else used_ssh_list (port_tbl st q))"
  by (auto simp: on_port_def link_ssh_def unlink_ssh_def Let_def assms split: option.splits)

text \<open>
  Claim C7: \<open>used_ssh_list\<close> gains a member only when the port becomes connected
  with that login assigned, never from a mere assignment or another change of the
  port or the login while the port is not connected. The update hook of the port
  keeps to that: it adds the login assigned only under \<^verbatim>\<open>if self.is_connected\<close>. The
  update hook of the login writes the same relation without that test, and breaks
  the claim: after the login \<open>1\<close> was assigned to the port \<open>7\<close>, which is not
  connected and has an empty history, the hook of the login (run before any change
  of the login is written) puts the login into the history of the port, and the
  port is still not connected.
\<close>

theorem ssh_update_adds_to_history:
  "\<not> is_connected (port_tbl (store_assign_ssh example_store 7 (Some 1)) 7) \<and>
   1 \<notin> used_ssh_list (port_tbl (store_assign_ssh example_store 7 (Some 1)) 7) \<and>
   1 \<in> used_ssh_list
         (port_tbl (SSH_before_update 9 (store_assign_ssh example_store 7 (Some 1)) 1) 7) \<and>
   \<not> is_connected
       (port_tbl (SSH_before_update 9 (store_assign_ssh example_store 7 (Some 1)) 1) 7)"
  by (simp add: store_assign_ssh_def on_port_def link_ssh_def unlink_ssh_def assign_ssh_def
        SSH_before_update_def Model_before_update_def example_store_def example_ssh_def
        fresh_port_def Let_def)

text \<open>In the same state the update hook of the port adds nothing to the history.\<close>

lemma port_update_keeps_history:
  "used_ssh_list
     (Port_before_update 9 ''192.0.2.1''
        (port_tbl (store_assign_ssh example_store 7 (Some 1)) 7)) = {}"
  by (simp add: store_assign_ssh_def on_port_def link_ssh_def unlink_ssh_def assign_ssh_def
        Port_before_update_def Model_before_update_def example_store_def example_ssh_def
        fresh_port_def Let_def)

text \<open>
  What each operation does to the history of a port. The update hook of the port
  adds the login assigned when the port is connected; the update hook of a login
  adds that login to the history of the port that holds it, whether that port is
  connected or not; \<^verbatim>\<open>assign_ssh\<close>, \<^verbatim>\<open>disconnect_ssh\<close> and \<^verbatim>\<open>reset_status\<close> add nothing (an
  assignment makes the port the holder of the login and leaves it not connected).
\<close>

lemma used_ssh_list_growth:
  "used_ssh_list (assign_ssh self x) = used_ssh_list self \<and>
   used_ssh_list (disconnect_ssh self r) =
     (case ssh self of
        None \<Rightarrow> used_ssh_list self
      | Some y \<Rightarrow> if r then used_ssh_list self - {y} else used_ssh_list self) \<and>
   used_ssh_list (reset_status self) = {} \<and>
   used_ssh_list (Port_before_update now ipv4 self) =
     (case ssh self of
        None \<Rightarrow> used_ssh_list self
      | Some y \<Rightarrow> if is_connected self then insert y (used_ssh_list self)
                  else used_ssh_list self) \<and>
   used_ssh_list (port_tbl (store_assign_ssh st pid x) q) = used_ssh_list (port_tbl st q) \<and>
   SSH.port (ssh_tbl (store_assign_ssh st pid (Some sid)) sid) = Some pid \<and>
   \<not> is_connected (port_tbl (store_assign_ssh st pid (Some sid)) pid) \<and>
   used_ssh_list (port_tbl (SSH_before_update now st sid) q) =
     (if SSH.port (ssh_tbl st sid) = Some q then insert sid (used_ssh_list (port_tbl st q))
      else used_ssh_list (port_tbl st q))"
proof -
  have a: "used_ssh_list (port_tbl (store_assign_ssh st pid x) q) = used_ssh_list (port_tbl st q)"
    unfolding store_assign_ssh_def
    by (subst used_on_port_other [where g = "\<lambda>u. u"]) (simp_all add: assign_ssh_def)
  have b: "SSH.port (ssh_tbl (store_assign_ssh st pid (Some sid)) sid) = Some pid \<and>
      \<not> is_connected (port_tbl (store_assign_ssh st pid (Some sid)) pid)"
    by (simp add: store_assign_ssh_def on_port_def link_ssh_def unlink_ssh_def assign_ssh_def
          Let_def split: option.splits)
  have c: "used_ssh_list (port_tbl (SSH_before_update now st sid) q) =
     (if SSH.port (ssh_tbl st sid) = Some q then insert sid (used_ssh_list (port_tbl st q))
      else used_ssh_list (port_tbl st q))"
    by (auto simp: SSH_before_update_def Model_before_update_def Let_def split: option.splits)
  have d: "used_ssh_list (Port_before_update now ipv4 self) =
     (case ssh self of
        None \<Rightarrow> used_ssh_list self
      | Some y \<Rightarrow> if is_connected self then insert y (used_ssh_list self)
                  else used_ssh_list self)"
    by (auto simp: Port_before_update_def Model_before_update_def Let_def split: option.splits)
  have e: "used_ssh_list (disconnect_ssh self r) =
     (case ssh self of
        None \<Rightarrow> used_ssh_list self
      | Some y \<Rightarrow> if r then used_ssh_list self - {y} else used_ssh_list self)"
    by (simp add: disconnect_ssh_def assign_ssh_def split: option.splits)
  from a b c d e show ?thesis
    by (simp add: assign_ssh_def reset_status_def Model_reset_status_def)
qed

subsection \<open>Choosing a login for a port\<close>

lemma get_ssh_for_port_unique_eq:
  "get_ssh_for_port r st pid True =
     (let cs = filter (\<lambda>s. is_live (ssh_tbl st s) = Some True \<and>
                            s \<notin> used_ssh_list (port_tbl st pid)) (ssh_ids st)
      in if cs = [] then None else Some (cs ! (r mod length cs)))"
  by (simp add: get_ssh_for_port_def random_1_def Let_def conj_commute)

lemma distinct_nth_ex1:
  assumes "distinct cs" and "s \<in> set cs"
  shows "\<exists>!k. k < length cs \<and> cs ! k = s"
  using assms by (metis in_set_conv_nth nth_eq_iff_index_eq)

text \<open>
  Claim C4: \<^verbatim>\<open>get_ssh_for_port(port, unique=True)\<close> returns \<^verbatim>\<open>None\<close> or a login of the
  table that is live and not in the port's \<open>used_ssh_list\<close>; it returns \<^verbatim>\<open>None\<close> exactly
  when there is no such login; and the choice is uniform: of the \<open>n\<close> possible
  draws, where \<open>n\<close> is the number of such logins, exactly one gives each of them.
  The keys of the table are pairwise different.
\<close>

theorem get_ssh_for_port_unique:
  assumes "distinct (ssh_ids st)"
  shows "(\<forall>s. get_ssh_for_port r st pid True = Some s \<longrightarrow>
            s \<in> set (ssh_ids st) \<and> is_live (ssh_tbl st s) = Some True \<and>
            s \<notin> used_ssh_list (port_tbl st pid)) \<and>
         (get_ssh_for_port r st pid True = None \<longleftrightarrow>
            \<not> (\<exists>s \<in> set (ssh_ids st). is_live (ssh_tbl st s) = Some True \<and>
                  s \<notin> used_ssh_list (port_tbl st pid))) \<and>
         (\<forall>s \<in> set (ssh_ids st).
            is_live (ssh_tbl st s) = Some True \<and> s \<notin> used_ssh_list (port_tbl st pid) \<longrightarrow>
            (\<exists>!k. k < length (filter (\<lambda>s. is_live (ssh_tbl st s) = Some True \<and>
                                          s \<notin> used_ssh_list (port_tbl st pid)) (ssh_ids st)) \<and>
                   get_ssh_for_port k st pid True = Some s))"
proof -
  define cs where "cs = filter (\<lambda>s. is_live (ssh_tbl st s) = Some True \<and>
                            s \<notin> used_ssh_list (port_tbl st pid)) (ssh_ids st)"
  have g: "get_ssh_for_port k st pid True = (if cs = [] then None else Some (cs ! (k mod length cs)))"
    for k by (simp add: get_ssh_for_port_unique_eq cs_def Let_def)
  have set_cs: "set cs = {s \<in> set (ssh_ids st). is_live (ssh_tbl st s) = Some True \<and>
                            s \<notin> used_ssh_list (port_tbl st pid)}"
    by (auto simp: cs_def)
  from assms have d: "distinct cs" by (simp add: cs_def)
  have 1: "s \<in> set cs" if "get_ssh_for_port r st pid True = Some s" for s
  proof -
    from that g [of r] have ne: "cs \<noteq> []" and s: "s = cs ! (r mod length cs)"
      by (auto split: if_splits)
    from ne have "r mod length cs < length cs" by simp
    with s show ?thesis by simp
  qed
  have 2: "get_ssh_for_port r st pid True = None \<longleftrightarrow> set cs = {}"
    by (simp add: g)
  have 3: "\<exists>!k. k < length cs \<and> get_ssh_for_port k st pid True = Some s" if "s \<in> set cs" for s
  proof -
    from that have ne: "cs \<noteq> []" by auto
    from distinct_nth_ex1 [OF d that] obtain k where k: "k < length cs" "cs ! k = s"
      and u: "\<And>j. j < length cs \<Longrightarrow> cs ! j = s \<Longrightarrow> j = k" by blast
    show ?thesis
    proof (rule ex1I [of _ k])
      from k ne show "k < length cs \<and> get_ssh_for_port k st pid True = Some s"
        by (simp add: g)
    next
      fix j assume "j < length cs \<and> get_ssh_for_port j st pid True = Some s"
      then have j: "j < length cs" and "get_ssh_for_port j st pid True = Some s" by simp_all
      with ne have "cs ! j = s" by (simp add: g)
      with j show "j = k" by (rule u)
    qed
  qed
  from 1 2 3 show ?thesis
    unfolding set_cs cs_def [symmetric] by blast
qed

theorem get_ssh_for_port_unique_witness:
  "distinct (ssh_ids example_store) \<and>
   get_ssh_for_port 5 example_store 7 True = Some 3 \<and>
   (\<exists>!k. k < 2 \<and> get_ssh_for_port k example_store 7 True = Some 1) \<and>
   (\<exists>!k. k < 2 \<and> get_ssh_for_port k example_store 7 True = Some 3)"
proof -
  have d: "distinct (ssh_ids example_store)"
    by (simp add: example_store_def)
  have n: "length (filter (\<lambda>s. is_live (ssh_tbl example_store s) = Some True \<and>
                              s \<notin> used_ssh_list (port_tbl example_store 7))
                     (ssh_ids example_store)) = 2"
    by (simp add: example_store_def example_ssh_def fresh_port_def)
  have v: "get_ssh_for_port 5 example_store 7 True = Some 3"
    by (simp add: get_ssh_for_port_def random_1_def example_store_def example_ssh_def
          fresh_port_def numeral_2_eq_2 [symmetric])
  have c: "1 \<in> set (ssh_ids example_store) \<and> 3 \<in> set (ssh_ids example_store) \<and>
      is_live (ssh_tbl example_store 1) = Some True \<and>
      is_live (ssh_tbl example_store 3) = Some True \<and>
      1 \<notin> used_ssh_list (port_tbl example_store 7) \<and>
      3 \<notin> used_ssh_list (port_tbl example_store 7)"
    by (simp add: example_store_def example_ssh_def fresh_port_def)
  from get_ssh_for_port_unique [OF d, of 5 7] c
  have "(\<exists>!k. k < 2 \<and> get_ssh_for_port k example_store 7 True = Some 1) \<and>
        (\<exists>!k. k < 2 \<and> get_ssh_for_port k example_store 7 True = Some 3)"
    unfolding n by blast
  with d v show ?thesis by simp
qed

end
